theory Spec2Isabelle
  imports Complex_Main
begin

section \<open>JavaScript values and JSON documents\<close>

text \<open>
  The application (\<^verbatim>\<open>src/src/App.jsx\<close>) keeps a list of places in React state,
  mirrors it into \<^verbatim>\<open>localStorage\<close>, and exchanges it with files as JSON. Its
  state is dynamically typed: whatever \<^verbatim>\<open>JSON.parse\<close> returns is stored as
  it is. The values are therefore modelled as untyped JavaScript values.

  Modelling boundary, stated once:
  \<^item> A number is one of the three non-finite values or a finite value, which is held
    as an exact rational: rounding and the sign of zero are not modelled.
  \<^item> A string is a list of characters; a character stands for the code unit of the
    same number, so the strings are those of code units below 256.
  \<^item> An object is the list of its own properties in order; an array is the list of
    its elements. The program reads properties by name only, so the order (and that
    JavaScript lists integer-like keys first) plays no role.
  \<^item> Strict equality is only ever taken against a string (an id), where it is
    equality of values; object identity does not occur.
  \<^item> A JSON text is represented by the syntax tree it denotes (\<open>json\<close>): the
    layout of the text (indentation, escapes, decimal notation) is the platform's
    \<^verbatim>\<open>JSON.stringify\<close> and \<^verbatim>\<open>JSON.parse\<close> and is not modelled. What
    is modelled is which value becomes which tree, and back.
\<close>

datatype jsnum = NaN | PosInf | NegInf | Finite rat

datatype jsval =
    Undefined
  | Null
  | Bool bool
  | Num jsnum
  | Str string
  | Arr "jsval list"
  | Obj "(string \<times> jsval) list"

text \<open>
  A JSON text as a tree, as \<^verbatim>\<open>JSON.parse\<close> reads it. \<open>JNum q\<close> is a number
  literal that is read as the finite number \<open>q\<close>; \<open>JHuge\<close> is a literal beyond the
  range of the finite numbers, such as \<^verbatim>\<open>1e999\<close> (with the flag set:
  \<^verbatim>\<open>-1e999\<close>), which is read as an infinity. \<open>JObj\<close> lists the members of an
  object as they are read: a name that the text repeats stands once, at its first
  place and with its last value.
\<close>

datatype json =
    JNull
  | JBool bool
  | JNum rat
  | JHuge bool
  | JStr string
  | JArr "json list"
  | JObj "(string \<times> json) list"

text \<open>
  A text handed to \<^verbatim>\<open>JSON.parse\<close>, or stored under a key of
  \<^verbatim>\<open>localStorage\<close>: the empty string, a non-empty string that is not a JSON
  text, or a JSON text.
\<close>

datatype jstext = Empty | Garbled | Json json

datatype error = TypeError | SyntaxError

text \<open>
  \<^verbatim>\<open>JSON.stringify(v)\<close>: \<open>None\<close> is the result \<^verbatim>\<open>undefined\<close>. A
  property whose value is \<^verbatim>\<open>undefined\<close> is left out, an array element that is
  \<^verbatim>\<open>undefined\<close> is written \<^verbatim>\<open>null\<close>, and so is a number that is not
  finite.
\<close>

fun to_json :: "jsval \<Rightarrow> json option" where
  "to_json Undefined = None"
| "to_json Null = Some JNull"
| "to_json (Bool b) = Some (JBool b)"
| "to_json (Num n) = Some (case n of Finite q \<Rightarrow> JNum q | _ \<Rightarrow> JNull)"
| "to_json (Str s) = Some (JStr s)"
| "to_json (Arr xs) =
     Some (JArr (map (\<lambda>x. case to_json x of None \<Rightarrow> JNull | Some j \<Rightarrow> j) xs))"
| "to_json (Obj kvs) =
     Some (JObj (concat (map (\<lambda>(k, v). case to_json v of None \<Rightarrow> [] | Some j \<Rightarrow> [(k, j)]) kvs)))"

fun from_json :: "json \<Rightarrow> jsval" where
  "from_json JNull = Null"
| "from_json (JBool b) = Bool b"
| "from_json (JNum q) = Num (Finite q)"
| "from_json (JHuge negative) = Num (if negative then NegInf else PosInf)"
| "from_json (JStr s) = Str s"
| "from_json (JArr xs) = Arr (map from_json xs)"
| "from_json (JObj kvs) = Obj (map (\<lambda>(k, j). (k, from_json j)) kvs)"

definition JSON_stringify :: "jsval \<Rightarrow> jstext option" where
  "JSON_stringify v = map_option Json (to_json v)"

fun JSON_parse :: "jstext \<Rightarrow> error + jsval" where
  "JSON_parse Empty = Inl SyntaxError"
| "JSON_parse Garbled = Inl SyntaxError"
| "JSON_parse (Json j) = Inr (from_json j)"

text \<open>
  A value turned into text where a string is expected (\<^verbatim>\<open>new Blob([x])\<close>,
  \<^verbatim>\<open>setItem(key, x)\<close>): \<^verbatim>\<open>undefined\<close> becomes the text
  \<^verbatim>\<open>"undefined"\<close>, which is not JSON.
\<close>

fun as_text :: "jstext option \<Rightarrow> jstext" where
  "as_text None = Garbled"
| "as_text (Some t) = t"

subsection \<open>Operators\<close>

text \<open>Truthiness, \<^verbatim>\<open>a || b\<close> and \<^verbatim>\<open>a ?? b\<close>.\<close>

fun truthy :: "jsval \<Rightarrow> bool" where
  "truthy Undefined = False"
| "truthy Null = False"
| "truthy (Bool b) = b"
| "truthy (Num n) = (n \<noteq> NaN \<and> n \<noteq> Finite 0)"
| "truthy (Str s) = (s \<noteq> [])"
| "truthy (Arr xs) = True"
| "truthy (Obj kvs) = True"

definition or_js :: "jsval \<Rightarrow> jsval \<Rightarrow> jsval" where
  "or_js a b = (if truthy a then a else b)"

definition nullish_js :: "jsval \<Rightarrow> jsval \<Rightarrow> jsval" where
  "nullish_js a b = (if a = Undefined \<or> a = Null then b else a)"

text \<open>
  Reading a property. \<open>own_prop\<close> reads an own property of an object, giving
  \<^verbatim>\<open>undefined\<close> when it is absent. \<open>dot v k\<close> is \<^verbatim>\<open>v.k\<close>: it throws
  on \<^verbatim>\<open>null\<close> and \<^verbatim>\<open>undefined\<close>, and a primitive or an array has none
  of the properties this program reads (none of them is a built-in name such as
  \<^verbatim>\<open>length\<close>). \<open>opt_dot v k\<close> is \<^verbatim>\<open>v?.k\<close>.
\<close>

definition own_prop :: "(string \<times> jsval) list \<Rightarrow> string \<Rightarrow> jsval" where
  "own_prop kvs k = (case map_of kvs k of None \<Rightarrow> Undefined | Some v \<Rightarrow> v)"

fun dot :: "jsval \<Rightarrow> string \<Rightarrow> error + jsval" where
  "dot Undefined k = Inl TypeError"
| "dot Null k = Inl TypeError"
| "dot (Obj kvs) k = Inr (own_prop kvs k)"
| "dot v k = Inr Undefined"

fun opt_dot :: "jsval \<Rightarrow> string \<Rightarrow> jsval" where
  "opt_dot (Obj kvs) k = own_prop kvs k"
| "opt_dot v k = Undefined"

text \<open>
  Writing a property, as an object literal does after a spread
  (\<^verbatim>\<open>{ ...l, k: v }\<close>): a property that exists keeps its place, a new one is
  added at the end.
\<close>

fun assign :: "string \<Rightarrow> jsval \<Rightarrow> (string \<times> jsval) list \<Rightarrow> (string \<times> jsval) list" where
  "assign k v [] = [(k, v)]"
| "assign k v ((k', v') # kvs) = (if k' = k then (k, v) # kvs else (k', v') # assign k v kvs)"

text \<open>
  \<^verbatim>\<open>s.trim()\<close> removes white space at both ends; \<^verbatim>\<open>x?.trim()\<close> is
  \<^verbatim>\<open>undefined\<close> on \<^verbatim>\<open>null\<close> and \<^verbatim>\<open>undefined\<close> and throws on a
  value that has no \<^verbatim>\<open>trim\<close> method.
\<close>

definition is_space :: "char \<Rightarrow> bool" where
  "is_space c = (c \<in> set [CHR 0x09, CHR 0x0A, CHR 0x0B, CHR 0x0C, CHR 0x0D, CHR 0x20, CHR 0xA0])"

definition trim :: "string \<Rightarrow> string" where
  "trim s = rev (dropWhile is_space (rev (dropWhile is_space s)))"

fun opt_trim :: "jsval \<Rightarrow> error + jsval" where
  "opt_trim Undefined = Inr Undefined"
| "opt_trim Null = Inr Undefined"
| "opt_trim (Str s) = Inr (Str (trim s))"
| "opt_trim v = Inl TypeError"

text \<open>
  \<^verbatim>\<open>Array.prototype.filter\<close>, \<^verbatim>\<open>map\<close> and \<^verbatim>\<open>find\<close> with a callback
  that may throw: the first exception ends the traversal.
\<close>

fun filter_js :: "('a \<Rightarrow> error + bool) \<Rightarrow> 'a list \<Rightarrow> error + 'a list" where
  "filter_js p [] = Inr []"
| "filter_js p (x # xs) =
     (case p x of
        Inl e \<Rightarrow> Inl e
      | Inr b \<Rightarrow>
          (case filter_js p xs of
             Inl e \<Rightarrow> Inl e
           | Inr ys \<Rightarrow> Inr (if b then x # ys else ys)))"

fun map_js :: "('a \<Rightarrow> error + 'b) \<Rightarrow> 'a list \<Rightarrow> error + 'b list" where
  "map_js f [] = Inr []"
| "map_js f (x # xs) =
     (case f x of
        Inl e \<Rightarrow> Inl e
      | Inr y \<Rightarrow>
          (case map_js f xs of
             Inl e \<Rightarrow> Inl e
           | Inr ys \<Rightarrow> Inr (y # ys)))"

fun find_js :: "('a \<Rightarrow> error + bool) \<Rightarrow> 'a list \<Rightarrow> error + 'a option" where
  "find_js p [] = Inr None"
| "find_js p (x # xs) =
     (case p x of
        Inl e \<Rightarrow> Inl e
      | Inr b \<Rightarrow> (if b then Inr (Some x) else find_js p xs))"

section \<open>The application\<close>

text \<open>
  The form being filled in (\<^verbatim>\<open>draft\<close>): \<^verbatim>\<open>{lat, lng, title, notes}\<close>, with
  the \<^verbatim>\<open>id\<close> of the place when an existing place is edited. The id is a string,
  as the file's \<^verbatim>\<open>Location\<close> type declares; the other fields are copied around
  without being looked at, so they are values.
\<close>

text \<open>
  (The fields \<^verbatim>\<open>notes\<close> and \<^verbatim>\<open>id\<close> are written \<open>notes'\<close> and
  \<open>id'\<close>: the plain names are taken.)
\<close>

record draft =
  lat :: jsval
  lng :: jsval
  title :: jsval
  notes' :: jsval
  id' :: "string option"

text \<open>
  The React state of \<^verbatim>\<open>App\<close> and the parts of the browser it acts on: the
  storage, the alerts shown, the console warnings and the files offered for download.
\<close>

record world =
  locations :: "jsval list"
  isCollecting :: jsval
  showList :: jsval
  draft :: "draft option"
  loadingMeta :: bool
  localStorage :: "string \<Rightarrow> jstext option"
  alerts :: "string list"
  warnings :: "string list"
  downloads :: "(string \<times> jstext) list"

definition STORAGE_KEY :: string where
  "STORAGE_KEY = ''cs465-places-v1''"

text \<open>The state of the first render (the arguments of \<^verbatim>\<open>useState\<close>).\<close>

definition initial :: "(string \<Rightarrow> jstext option) \<Rightarrow> world" where
  "initial storage =
     \<lparr>locations = [], isCollecting = Bool True, showList = Bool True, draft = None,
      loadingMeta = False, localStorage = storage, alerts = [], warnings = [],
      downloads = []\<rparr>"

subsection \<open>Loading and persisting\<close>

text \<open>The body of the \<^verbatim>\<open>try\<close> block of the loading effect.\<close>

definition load_try :: "jstext \<Rightarrow> world \<Rightarrow> error + world" where
  "load_try raw w =
     (case JSON_parse raw of
        Inl e \<Rightarrow> Inl e
      | Inr parsed \<Rightarrow>
          (case opt_dot parsed ''locations'' of
             Arr ls \<Rightarrow>
               (case dot parsed ''isCollecting'' of
                  Inl e \<Rightarrow> Inl e
                | Inr c \<Rightarrow>
                    (case dot parsed ''showList'' of
                       Inl e \<Rightarrow> Inl e
                     | Inr s \<Rightarrow>
                         Inr (w\<lparr>locations := ls,
                                isCollecting := nullish_js c (Bool False),
                                showList := nullish_js s (Bool False)\<rparr>)))
           | _ \<Rightarrow> Inr w))"

text \<open>
  The loading effect: \<^verbatim>\<open>if (raw)\<close> skips an absent item and the empty string,
  and \<^verbatim>\<open>catch {}\<close> drops whatever the block throws.
\<close>

definition load :: "world \<Rightarrow> world" where
  "load w =
     (case localStorage w STORAGE_KEY of
        None \<Rightarrow> w
      | Some raw \<Rightarrow>
          (if raw = Empty then w
           else (case load_try raw w of Inl e \<Rightarrow> w | Inr w' \<Rightarrow> w')))"

text \<open>
  The persisting effect. React runs it after a render in which \<^verbatim>\<open>locations\<close>,
  \<^verbatim>\<open>isCollecting\<close> or \<^verbatim>\<open>showList\<close> differs from the render before.
\<close>

definition persist :: "world \<Rightarrow> world" where
  "persist w =
     w\<lparr>localStorage := (localStorage w)
          (STORAGE_KEY \<mapsto>
             as_text (JSON_stringify
               (Obj [(''locations'', Arr (locations w)),
                     (''isCollecting'', isCollecting w),
                     (''showList'', showList w)])))\<rparr>"

subsection \<open>The map\<close>

text \<open>The click handler of \<^verbatim>\<open>MapClickCatcher\<close>: a click on the map at a coordinate.\<close>

definition MapClickCatcher :: "jsnum \<Rightarrow> jsnum \<Rightarrow> world \<Rightarrow> world" where
  "MapClickCatcher la lo w =
     (if \<not> truthy (isCollecting w) then w
      else w\<lparr>draft := Some \<lparr>lat = Num la, lng = Num lo, title = Str [], notes' = Str [],
                             id' = None\<rparr>\<rparr>)"

subsection \<open>Reverse geocoding\<close>

text \<open>
  What the network gives for a request: \<^verbatim>\<open>fetch\<close> rejects, or the body is not
  JSON (\<^verbatim>\<open>res.json()\<close> rejects), or the body is a JSON text.
\<close>

datatype response = Rejected | BadBody | Body json

text \<open>Line 76: the city of an address.\<close>

definition resolve_city :: "jsval \<Rightarrow> jsval" where
  "resolve_city address =
     or_js (or_js (or_js (opt_dot address ''city'') (opt_dot address ''town''))
                  (opt_dot address ''village''))
           (opt_dot address ''county'')"

text \<open>The \<^verbatim>\<open>try\<close> block of \<^verbatim>\<open>enrichWithReverseGeocode\<close>, from the request on.\<close>

definition geocode_try :: "response \<Rightarrow> error + jsval" where
  "geocode_try r =
     (case r of
        Rejected \<Rightarrow> Inl TypeError
      | BadBody \<Rightarrow> Inl SyntaxError
      | Body j \<Rightarrow>
          (let data = from_json j;
               address = opt_dot data ''address'';
               city = resolve_city address;
               country = opt_dot address ''country''
           in Inr (Obj [(''displayName'', opt_dot data ''display_name''),
                        (''city'', city), (''country'', country)])))"

text \<open>
  \<^verbatim>\<open>enrichWithReverseGeocode(lat, lng)\<close>. The network is a parameter: \<open>net lat lng\<close>
  is what the request for these coordinates gives. The first component is the outcome of
  the promise (\<open>Inr\<close>: resolved, \<open>Inl\<close>: rejected); the \<^verbatim>\<open>finally\<close> block
  leaves \<^verbatim>\<open>loadingMeta\<close> false.
\<close>

definition enrichWithReverseGeocode ::
  "(jsval \<Rightarrow> jsval \<Rightarrow> response) \<Rightarrow> jsval \<Rightarrow> jsval \<Rightarrow> world \<Rightarrow> (error + jsval) \<times> world" where
  "enrichWithReverseGeocode net la lo w =
     (case geocode_try (net la lo) of
        Inl e \<Rightarrow>
          (Inr (Obj []),
           w\<lparr>warnings := warnings w @ [''Reverse geocode failed''], loadingMeta := False\<rparr>)
      | Inr m \<Rightarrow> (Inr m, w\<lparr>loadingMeta := False\<rparr>))"

subsection \<open>Adding, deleting and editing places\<close>

text \<open>
  The title of a new place:
  \<^verbatim>\<open>draft.title?.trim() || meta.city || "Untitled place"\<close>; its notes:
  \<^verbatim>\<open>draft.notes?.trim() || ""\<close>.
\<close>

definition new_title :: "jsval \<Rightarrow> jsval \<Rightarrow> error + jsval" where
  "new_title t meta =
     (case opt_trim t of
        Inl e \<Rightarrow> Inl e
      | Inr t' \<Rightarrow>
          (if truthy t' then Inr t'
           else (case dot meta ''city'' of
                   Inl e \<Rightarrow> Inl e
                 | Inr c \<Rightarrow> Inr (or_js c (Str ''Untitled place'')))))"

definition new_notes :: "jsval \<Rightarrow> error + jsval" where
  "new_notes n =
     (case opt_trim n of
        Inl e \<Rightarrow> Inl e
      | Inr n' \<Rightarrow> Inr (or_js n' (Str [])))"

text \<open>
  \<^verbatim>\<open>addDraftToLocations\<close>. \<open>uuid\<close> is what \<^verbatim>\<open>crypto.randomUUID()\<close> returns
  and \<open>now\<close> what \<^verbatim>\<open>Date.now()\<close> returns.
\<close>

definition addDraftToLocations ::
  "(jsval \<Rightarrow> jsval \<Rightarrow> response) \<Rightarrow> string \<Rightarrow> int \<Rightarrow> world \<Rightarrow> error + world" where
  "addDraftToLocations net uuid now w =
     (case draft w of
        None \<Rightarrow> Inr w
      | Some d \<Rightarrow>
          (case enrichWithReverseGeocode net (lat d) (lng d) w of
             (Inl e, w1) \<Rightarrow> Inl e
           | (Inr meta, w1) \<Rightarrow>
               (case new_title (title d) meta of
                  Inl e \<Rightarrow> Inl e
                | Inr t \<Rightarrow>
                    (case new_notes (notes' d) of
                       Inl e \<Rightarrow> Inl e
                     | Inr n \<Rightarrow>
                         Inr (w1\<lparr>locations :=
                                    Obj [(''id'', Str uuid), (''lat'', lat d), (''lng'', lng d),
                                         (''title'', t), (''notes'', n),
                                         (''createdAt'', Num (Finite (of_int now))),
                                         (''meta'', meta)]
                                    # locations w1,
                                  draft := None\<rparr>)))))"

text \<open>
  \<^verbatim>\<open>l.id === id\<close> for a string \<open>i\<close>: true exactly when the property is that
  string.
\<close>

definition id_is :: "string \<Rightarrow> jsval \<Rightarrow> error + bool" where
  "id_is i l = (case dot l ''id'' of Inl e \<Rightarrow> Inl e | Inr v \<Rightarrow> Inr (v = Str i))"

definition id_is_not :: "string \<Rightarrow> jsval \<Rightarrow> error + bool" where
  "id_is_not i l = (case dot l ''id'' of Inl e \<Rightarrow> Inl e | Inr v \<Rightarrow> Inr (v \<noteq> Str i))"

definition deleteLocation :: "string \<Rightarrow> world \<Rightarrow> error + world" where
  "deleteLocation i w =
     (case filter_js (id_is_not i) (locations w) of
        Inl e \<Rightarrow> Inl e
      | Inr ls \<Rightarrow> Inr (w\<lparr>locations := ls\<rparr>))"

definition startEdit :: "string \<Rightarrow> world \<Rightarrow> error + world" where
  "startEdit i w =
     (case find_js (id_is i) (locations w) of
        Inl e \<Rightarrow> Inl e
      | Inr None \<Rightarrow> Inr w
      | Inr (Some loc) \<Rightarrow>
          Inr (w\<lparr>draft := Some \<lparr>lat = opt_dot loc ''lat'', lng = opt_dot loc ''lng'',
                                  title = opt_dot loc ''title'',
                                  notes' = opt_dot loc ''notes'', id' = Some i\<rparr>\<rparr>))"

text \<open>
  The callback of \<^verbatim>\<open>prev.map\<close> in \<^verbatim>\<open>saveEdit\<close>. Only an object can have an
  \<^verbatim>\<open>id\<close> equal to a string, so the spread \<^verbatim>\<open>{ ...l, lat, lng, title, notes, meta }\<close>
  is only ever taken of an object.
\<close>

fun edit_entry :: "draft \<Rightarrow> jsval \<Rightarrow> string \<Rightarrow> jsval \<Rightarrow> error + jsval" where
  "edit_entry d meta i Undefined = Inl TypeError"
| "edit_entry d meta i Null = Inl TypeError"
| "edit_entry d meta i (Obj kvs) =
     Inr (if own_prop kvs ''id'' = Str i
          then Obj (assign ''meta'' meta
                     (assign ''notes'' (notes' d)
                       (assign ''title'' (title d)
                         (assign ''lng'' (lng d)
                           (assign ''lat'' (lat d) kvs)))))
          else Obj kvs)"
| "edit_entry d meta i l = Inr l"

text \<open>
  \<^verbatim>\<open>saveEdit\<close>: \<^verbatim>\<open>if (!draft?.id) return\<close> leaves when there is no draft, when
  the draft has no id, and when its id is the empty string.
\<close>

definition saveEdit :: "(jsval \<Rightarrow> jsval \<Rightarrow> response) \<Rightarrow> world \<Rightarrow> error + world" where
  "saveEdit net w =
     (case draft w of
        None \<Rightarrow> Inr w
      | Some d \<Rightarrow>
          (case id' d of
             None \<Rightarrow> Inr w
           | Some i \<Rightarrow>
               (if i = [] then Inr w
                else (case enrichWithReverseGeocode net (lat d) (lng d) w of
                        (Inl e, w1) \<Rightarrow> Inl e
                      | (Inr meta, w1) \<Rightarrow>
                          (case map_js (edit_entry d meta i) (locations w1) of
                             Inl e \<Rightarrow> Inl e
                           | Inr ls \<Rightarrow> Inr (w1\<lparr>locations := ls, draft := None\<rparr>))))))"

subsection \<open>Done, reset, export and import\<close>

definition handleDone :: "world \<Rightarrow> world" where
  "handleDone w = w\<lparr>isCollecting := Bool False, showList := Bool False\<rparr>"

text \<open>\<^verbatim>\<open>handleReset\<close>; \<open>confirmed\<close> is the answer to the \<^verbatim>\<open>confirm\<close> dialog.\<close>

definition handleReset :: "bool \<Rightarrow> world \<Rightarrow> world" where
  "handleReset confirmed w =
     (if \<not> confirmed then w
      else w\<lparr>locations := [], isCollecting := Bool True, showList := Bool True,
             draft := None, localStorage := (localStorage w)(STORAGE_KEY := None)\<rparr>)"

text \<open>
  A press on \<^emph>\<open>Reset\<close> until the page is at rest again. A confirmed reset assigns
  a new array to \<^verbatim>\<open>locations\<close>, so React renders again and, the dependency
  having changed, runs the persisting effect after the handler has returned. A reset
  that is not confirmed sets no state, so nothing is rendered and no effect runs.
\<close>

definition reset_event :: "bool \<Rightarrow> world \<Rightarrow> world" where
  "reset_event confirmed w =
     (if confirmed then persist (handleReset confirmed w) else handleReset confirmed w)"

definition downloadJSON :: "world \<Rightarrow> world" where
  "downloadJSON w =
     w\<lparr>downloads := downloads w @
          [(''places.json'', as_text (JSON_stringify (Arr (locations w))))]\<rparr>"

text \<open>
  \<^verbatim>\<open>onUploadFile\<close> with the handler of \<^verbatim>\<open>reader.onload\<close>; \<open>file\<close> is the
  text of the chosen file, \<open>None\<close> when no file was chosen.
\<close>

definition onUploadFile :: "jstext option \<Rightarrow> world \<Rightarrow> world" where
  "onUploadFile file w =
     (case file of
        None \<Rightarrow> w
      | Some t \<Rightarrow>
          (case JSON_parse t of
             Inl e \<Rightarrow> w\<lparr>alerts := alerts w @ [''Could not parse JSON.'']\<rparr>
           | Inr parsed \<Rightarrow>
               (case parsed of
                  Arr ls \<Rightarrow>
                    w\<lparr>locations := ls, isCollecting := Bool False, showList := Bool False\<rparr>
                | _ \<Rightarrow> w\<lparr>alerts := alerts w @ [''Invalid file format.'']\<rparr>)))"

section \<open>Notions of the specification\<close>

subsection \<open>Sequences of operations on the list\<close>

text \<open>
  The three operations of the place list, each with what the user and the environment
  supply: \<open>Add d uuid now\<close> presses \<^emph>\<open>Add\<close> on the form \<open>d\<close>, \<open>Update d\<close>
  presses \<^emph>\<open>Save\<close> on the form \<open>d\<close>, \<open>Remove i\<close> presses \<^emph>\<open>Delete\<close> on
  the place with id \<open>i\<close>.
\<close>

datatype op = Add draft string int | Update draft | Remove string

definition apply_op :: "(jsval \<Rightarrow> jsval \<Rightarrow> response) \<Rightarrow> op \<Rightarrow> world \<Rightarrow> error + world" where
  "apply_op net x w =
     (case x of
        Add d uuid now \<Rightarrow> addDraftToLocations net uuid now (w\<lparr>draft := Some d\<rparr>)
      | Update d \<Rightarrow> saveEdit net (w\<lparr>draft := Some d\<rparr>)
      | Remove i \<Rightarrow> deleteLocation i w)"

fun run :: "(jsval \<Rightarrow> jsval \<Rightarrow> response) \<Rightarrow> op list \<Rightarrow> world \<Rightarrow> error + world" where
  "run net [] w = Inr w"
| "run net (x # xs) w =
     (case apply_op net x w of Inl e \<Rightarrow> Inl e | Inr w' \<Rightarrow> run net xs w')"

text \<open>The ids of the places of the list, in order.\<close>

definition ids :: "world \<Rightarrow> jsval list" where
  "ids w = map (\<lambda>l. opt_dot l ''id'') (locations w)"

text \<open>Every \<open>Add\<close> of the sequence gets an id that no place has at that moment.\<close>

fun fresh_ids :: "(jsval \<Rightarrow> jsval \<Rightarrow> response) \<Rightarrow> op list \<Rightarrow> world \<Rightarrow> bool" where
  "fresh_ids net [] w = True"
| "fresh_ids net (x # xs) w =
     ((case x of Add d uuid now \<Rightarrow> Str uuid \<notin> set (ids w) | _ \<Rightarrow> True) \<and>
      (case apply_op net x w of Inl e \<Rightarrow> True | Inr w' \<Rightarrow> fresh_ids net xs w'))"

text \<open>
  A form whose title and notes are strings (what the input fields give) or absent:
  the values on which \<^verbatim>\<open>?.trim()\<close> does not throw.
\<close>

fun trimmable :: "jsval \<Rightarrow> bool" where
  "trimmable Undefined = True"
| "trimmable Null = True"
| "trimmable (Str s) = True"
| "trimmable v = False"

fun typed_form :: "op \<Rightarrow> bool" where
  "typed_form (Add d uuid now) = (trimmable (title d) \<and> trimmable (notes' d))"
| "typed_form x = True"

text \<open>A value other than \<^verbatim>\<open>null\<close> and \<^verbatim>\<open>undefined\<close>.\<close>

fun defined :: "jsval \<Rightarrow> bool" where
  "defined Undefined = False"
| "defined Null = False"
| "defined v = True"

subsection \<open>Blank titles, present fields\<close>

definition blank :: "string \<Rightarrow> bool" where
  "blank s = list_all is_space s"




subsection \<open>Equivalent lists\<close>

text \<open>
  Two values are equivalent when they are equal once every property whose value is
  \<^verbatim>\<open>undefined\<close> is removed: reading a property gives the same in both.
\<close>

fun strip_undefined :: "jsval \<Rightarrow> jsval" where
  "strip_undefined (Arr xs) = Arr (map strip_undefined xs)"
| "strip_undefined (Obj kvs) =
     Obj (concat (map (\<lambda>(k, v). if v = Undefined then [] else [(k, strip_undefined v)]) kvs))"
| "strip_undefined v = v"

definition equivalent :: "jsval \<Rightarrow> jsval \<Rightarrow> bool" where
  "equivalent a b = (strip_undefined a = strip_undefined b)"

text \<open>
  A value that JSON can hold: every number in it is finite and no array element is
  \<^verbatim>\<open>undefined\<close>.
\<close>

fun serialisable :: "jsval \<Rightarrow> bool" where
  "serialisable Undefined = False"
| "serialisable (Num n) = (case n of Finite q \<Rightarrow> True | _ \<Rightarrow> False)"
| "serialisable (Arr xs) = list_all serialisable xs"
| "serialisable (Obj kvs) = list_all (\<lambda>(k, v). v = Undefined \<or> serialisable v) kvs"
| "serialisable v = True"

text \<open>The text of the file that \<^verbatim>\<open>downloadJSON\<close> offered last.\<close>

definition exported :: "world \<Rightarrow> jstext" where
  "exported w = snd (last (downloads (downloadJSON w)))"

subsection \<open>Example data\<close>

text \<open>
  The example of the specification: a click at (40, -74), no title, and a lookup that
  answers Jersey City, USA.
\<close>

abbreviation demo_form :: draft where
  "demo_form \<equiv> \<lparr>lat = Num (Finite 40), lng = Num (Finite (- 74)), title = Str [],
                  notes' = Str [], id' = None\<rparr>"

abbreviation demo_net :: "jsval \<Rightarrow> jsval \<Rightarrow> response" where
  "demo_net \<equiv> (\<lambda>la lo. Body (JObj [(''display_name'', JStr ''Jersey City, USA''),
       (''address'', JObj [(''city'', JStr ''Jersey City''), (''country'', JStr ''USA'')])]))"

abbreviation demo_ops :: "op list" where
  "demo_ops \<equiv> [Add demo_form ''a'' 1, Add demo_form ''b'' 2,
      Update (demo_form\<lparr>title := Str ''Home'', id' := Some ''a''\<rparr>), Remove ''b'']"

abbreviation demo_place :: "string \<Rightarrow> jsnum \<Rightarrow> jsval \<Rightarrow> jsval" where
  "demo_place i la meta \<equiv>
     Obj [(''id'', Str i), (''lat'', Num la), (''lng'', Num (Finite (- 74))),
          (''title'', Str ''Jersey City''), (''notes'', Str []),
          (''createdAt'', Num (Finite 1)), (''meta'', meta)]"

abbreviation demo_world :: "jsval list \<Rightarrow> world" where
  "demo_world ls \<equiv> (initial Map.empty)\<lparr>locations := ls\<rparr>"

text \<open>A file with two places that have the same id.\<close>

abbreviation demo_twins :: json where
  "demo_twins \<equiv> JArr
     [JObj [(''id'', JStr ''a''), (''lat'', JNum 1), (''lng'', JNum 2), (''title'', JStr ''One''),
            (''notes'', JStr []), (''createdAt'', JNum 1)],
      JObj [(''id'', JStr ''a''), (''lat'', JNum 3), (''lng'', JNum 4), (''title'', JStr ''Two''),
            (''notes'', JStr []), (''createdAt'', JNum 2)]]"

section \<open>Auxiliary facts\<close>

subsection \<open>Properties and traversals\<close>

lemma own_prop_assign:
  "own_prop (assign k v kvs) k' = (if k' = k then v else own_prop kvs k')"
  by (induction kvs) (auto simp: own_prop_def)

lemma dot_defined: "defined l \<Longrightarrow> dot l k = Inr (opt_dot l k)"
  by (cases l) auto

lemma map_js_Inr: "map_js f xs = Inr ys \<Longrightarrow> list_all2 (\<lambda>x y. f x = Inr y) xs ys"
  by (induction xs arbitrary: ys) (auto split: sum.splits)

lemma map_js_total: "(\<forall>x\<in>set xs. \<exists>y. f x = Inr y) \<Longrightarrow> \<exists>ys. map_js f xs = Inr ys"
  by (induction xs) (auto split: sum.splits)

lemma filter_js_Inr: "filter_js p xs = Inr ys \<Longrightarrow> ys = filter (\<lambda>x. p x = Inr True) xs"
  by (induction xs arbitrary: ys) (auto split: sum.splits)

lemma filter_js_total: "(\<forall>x\<in>set xs. \<exists>b. p x = Inr b) \<Longrightarrow> \<exists>ys. filter_js p xs = Inr ys"
  by (induction xs) (auto split: sum.splits)

subsection \<open>One entry under an edit\<close>

lemma edit_entry_total: "defined l \<Longrightarrow> \<exists>l'. edit_entry d meta i l = Inr l' \<and> defined l'"
  by (cases l) auto

lemma edit_entry_other:
  "edit_entry d meta i l = Inr l' \<Longrightarrow> opt_dot l ''id'' \<noteq> Str i \<Longrightarrow> l' = l"
  by (cases l) (auto split: if_splits)

lemma edit_entry_same:
  assumes "edit_entry d meta i l = Inr l'" and "opt_dot l ''id'' = Str i"
  shows "opt_dot l' ''lat'' = lat d \<and> opt_dot l' ''lng'' = lng d \<and>
    opt_dot l' ''title'' = title d \<and> opt_dot l' ''notes'' = notes' d \<and>
    opt_dot l' ''meta'' = meta \<and>
    (\<forall>k. k \<notin> {''lat'', ''lng'', ''title'', ''notes'', ''meta''} \<longrightarrow> opt_dot l' k = opt_dot l k)"
  using assms by (cases l) (auto simp: own_prop_assign)

lemma edit_entry_id:
  "edit_entry d meta i l = Inr l' \<Longrightarrow> opt_dot l' ''id'' = opt_dot l ''id''"
  by (cases l) (auto simp: own_prop_assign)

subsection \<open>The handlers\<close>

lemma enrich_resolves:
  "\<exists>m. fst (enrichWithReverseGeocode net la lo w) = Inr m"
  by (auto simp: enrichWithReverseGeocode_def split: sum.splits)

lemma enrich_locations:
  "locations (snd (enrichWithReverseGeocode net la lo w)) = locations w"
  by (auto simp: enrichWithReverseGeocode_def split: sum.splits)

lemma saveEdit_Inr:
  assumes "saveEdit net w = Inr w'" and "draft w = Some d" and "id' d = Some i" and "i \<noteq> []"
  shows "\<exists>meta. fst (enrichWithReverseGeocode net (lat d) (lng d) w) = Inr meta \<and>
     map_js (edit_entry d meta i) (locations w) = Inr (locations w')"
proof -
  obtain r w1 where e: "enrichWithReverseGeocode net (lat d) (lng d) w = (r, w1)"
    by (cases "enrichWithReverseGeocode net (lat d) (lng d) w")
  have l: "locations w1 = locations w"
    using enrich_locations [of net "lat d" "lng d" w] e by simp
  show ?thesis
    using assms e l by (auto simp: saveEdit_def split: sum.splits)
qed

lemma saveEdit_total:
  assumes "list_all defined (locations w)"
  shows "\<exists>w'. saveEdit net w = Inr w' \<and> list_all defined (locations w')"
proof (cases "\<exists>d i. draft w = Some d \<and> id' d = Some i \<and> i \<noteq> []")
  case False
  then show ?thesis using assms by (auto simp: saveEdit_def split: option.splits)
next
  case True
  then obtain d i where d: "draft w = Some d" "id' d = Some i" "i \<noteq> []" by blast
  obtain r w1 where e: "enrichWithReverseGeocode net (lat d) (lng d) w = (r, w1)"
    by (cases "enrichWithReverseGeocode net (lat d) (lng d) w")
  obtain meta where r: "r = Inr meta"
    using enrich_resolves [of net "lat d" "lng d" w] e by auto
  have l: "locations w1 = locations w"
    using enrich_locations [of net "lat d" "lng d" w] e by simp
  have "\<forall>x\<in>set (locations w). \<exists>y. edit_entry d meta i x = Inr y"
    using assms edit_entry_total by (auto simp: list_all_iff) blast
  then obtain ys where ys: "map_js (edit_entry d meta i) (locations w) = Inr ys"
    using map_js_total by blast
  have "list_all2 (\<lambda>x y. edit_entry d meta i x = Inr y) (locations w) ys"
    using map_js_Inr [OF ys] .
  then have "list_all defined ys"
    using assms
  proof (induction rule: list_all2_induct)
    case Nil
    then show ?case by simp
  next
    case (Cons x xs y ys)
    then show ?case using edit_entry_total [of x d meta i] by auto
  qed
  then show ?thesis
    using d e r l ys by (simp add: saveEdit_def)
qed

lemma add_Inr:
  assumes "addDraftToLocations net uuid now w = Inr w'" and "draft w = Some d"
  shows "\<exists>p. locations w' = p # locations w \<and> opt_dot p ''id'' = Str uuid \<and> defined p"
proof -
  obtain r w1 where e: "enrichWithReverseGeocode net (lat d) (lng d) w = (r, w1)"
    by (cases "enrichWithReverseGeocode net (lat d) (lng d) w")
  have l: "locations w1 = locations w"
    using enrich_locations [of net "lat d" "lng d" w] e by simp
  show ?thesis
    using assms e l
    by (auto simp: addDraftToLocations_def own_prop_def split: sum.splits)
qed

lemma enrich_object:
  "fst (enrichWithReverseGeocode net la lo w) = Inr m \<Longrightarrow> \<exists>kvs. m = Obj kvs"
  by (auto simp: enrichWithReverseGeocode_def geocode_try_def Let_def split: sum.splits response.splits)

lemma new_title_total: "trimmable t \<Longrightarrow> \<exists>v. new_title t (Obj kvs) = Inr v"
  by (cases t) (auto simp: new_title_def)

lemma new_notes_total: "trimmable n \<Longrightarrow> \<exists>v. new_notes n = Inr v"
  by (cases n) (auto simp: new_notes_def)

lemma add_total:
  assumes "draft w = Some d" and "trimmable (title d)" and "trimmable (notes' d)"
  shows "\<exists>w'. addDraftToLocations net uuid now w = Inr w'"
proof -
  obtain r w1 where e: "enrichWithReverseGeocode net (lat d) (lng d) w = (r, w1)"
    by (cases "enrichWithReverseGeocode net (lat d) (lng d) w")
  obtain meta where r: "r = Inr meta"
    using enrich_resolves [of net "lat d" "lng d" w] e by auto
  obtain kvs where m: "meta = Obj kvs"
    using enrich_object [of net "lat d" "lng d" w meta] e r by auto
  obtain t where t: "new_title (title d) (Obj kvs) = Inr t"
    using new_title_total [OF assms(2)] by blast
  obtain n where n: "new_notes (notes' d) = Inr n"
    using new_notes_total [OF assms(3)] by blast
  show ?thesis
    using assms(1) e r m t n by (simp add: addDraftToLocations_def)
qed

lemma save_ids: "saveEdit net w = Inr w' \<Longrightarrow> ids w' = ids w"
proof (cases "\<exists>d i. draft w = Some d \<and> id' d = Some i \<and> i \<noteq> []")
  case False
  assume "saveEdit net w = Inr w'"
  with False show ?thesis by (auto simp: saveEdit_def split: option.splits if_splits)
next
  case True
  assume s: "saveEdit net w = Inr w'"
  from True obtain d i where d: "draft w = Some d" "id' d = Some i" "i \<noteq> []" by blast
  obtain meta where js: "map_js (edit_entry d meta i) (locations w) = Inr (locations w')"
    using saveEdit_Inr [OF s d] by blast
  have "list_all2 (\<lambda>x y. edit_entry d meta i x = Inr y) (locations w) (locations w')"
    using map_js_Inr [OF js] .
  then have "map (\<lambda>l. opt_dot l ''id'') (locations w') = map (\<lambda>l. opt_dot l ''id'') (locations w)"
    by (induction rule: list_all2_induct) (auto simp: edit_entry_id)
  then show ?thesis by (simp add: ids_def)
qed

lemma delete_Inr:
  assumes "deleteLocation i w = Inr w'"
  shows "locations w' = filter (\<lambda>l. id_is_not i l = Inr True) (locations w)"
  using assms filter_js_Inr [of "id_is_not i" "locations w"]
  by (auto simp: deleteLocation_def split: sum.splits)

lemma delete_total:
  assumes "list_all defined (locations w)"
  shows "\<exists>w'. deleteLocation i w = Inr w'"
proof -
  have "\<forall>x\<in>set (locations w). \<exists>b. id_is_not i x = Inr b"
    using assms by (auto simp: list_all_iff id_is_not_def dot_defined)
  then obtain ys where "filter_js (id_is_not i) (locations w) = Inr ys"
    using filter_js_total by blast
  then show ?thesis by (simp add: deleteLocation_def)
qed

subsection \<open>Steps and runs\<close>

lemma step_distinct:
  assumes "distinct (ids w)" and "apply_op net x w = Inr w'"
    and "case x of Add d uuid now \<Rightarrow> Str uuid \<notin> set (ids w) | _ \<Rightarrow> True"
  shows "distinct (ids w')"
proof (cases x)
  case (Add d uuid now)
  then have "addDraftToLocations net uuid now (w\<lparr>draft := Some d\<rparr>) = Inr w'"
    using assms(2) by (simp add: apply_op_def)
  from add_Inr [OF this] obtain p where
    "locations w' = p # locations w" "opt_dot p ''id'' = Str uuid" by auto
  then show ?thesis using assms(1,3) Add by (simp add: ids_def)
next
  case (Update d)
  then have "saveEdit net (w\<lparr>draft := Some d\<rparr>) = Inr w'"
    using assms(2) by (simp add: apply_op_def)
  from save_ids [OF this] show ?thesis using assms(1) by (simp add: ids_def)
next
  case (Remove i)
  then have "deleteLocation i w = Inr w'"
    using assms(2) by (simp add: apply_op_def)
  from delete_Inr [OF this] show ?thesis
    using assms(1) by (simp add: ids_def distinct_map_filter)
qed

lemma step_total:
  assumes "list_all defined (locations w)" and "typed_form x"
  shows "\<exists>w'. apply_op net x w = Inr w' \<and> list_all defined (locations w')"
proof (cases x)
  case (Add d uuid now)
  let ?w = "w\<lparr>draft := Some d\<rparr>"
  obtain w' where a: "addDraftToLocations net uuid now ?w = Inr w'"
    using add_total [of ?w d net uuid now] assms(2) Add by auto
  from add_Inr [OF a] obtain p where "locations w' = p # locations w" "defined p" by auto
  then show ?thesis using a assms(1) Add by (simp add: apply_op_def)
next
  case (Update d)
  then show ?thesis
    using saveEdit_total [of "w\<lparr>draft := Some d\<rparr>" net] assms(1) by (simp add: apply_op_def)
next
  case (Remove i)
  obtain w' where d: "deleteLocation i w = Inr w'"
    using delete_total [OF assms(1)] by blast
  from delete_Inr [OF d] have "list_all defined (locations w')"
    using assms(1) by (simp add: list_all_iff)
  then show ?thesis using d Remove by (simp add: apply_op_def)
qed

lemma run_distinct:
  "distinct (ids w) \<Longrightarrow> fresh_ids net xs w \<Longrightarrow> run net xs w = Inr w' \<Longrightarrow> distinct (ids w')"
proof (induction xs arbitrary: w)
  case Nil
  then show ?case by simp
next
  case (Cons x xs)
  from Cons.prems(3) obtain w1 where s: "apply_op net x w = Inr w1" and r: "run net xs w1 = Inr w'"
    by (auto split: sum.splits)
  have f: "case x of Add d uuid now \<Rightarrow> Str uuid \<notin> set (ids w) | _ \<Rightarrow> True"
    using Cons.prems(2) by simp
  have "fresh_ids net xs w1" using Cons.prems(2) s by simp
  with Cons.IH [OF step_distinct [OF Cons.prems(1) s f]] r show ?case by blast
qed

lemma run_total:
  "list_all defined (locations w) \<Longrightarrow> list_all typed_form xs \<Longrightarrow> \<exists>w'. run net xs w = Inr w'"
proof (induction xs arbitrary: w)
  case Nil
  then show ?case by simp
next
  case (Cons x xs)
  obtain w1 where s: "apply_op net x w = Inr w1" and d: "list_all defined (locations w1)"
    using step_total [of w x net] Cons.prems by auto
  from Cons.IH [OF d] Cons.prems(2) obtain w' where "run net xs w1 = Inr w'" by auto
  with s show ?case by simp
qed

subsection \<open>Blank strings\<close>

lemma all_dropWhile: "(\<forall>x\<in>set (dropWhile P s). P x) \<longleftrightarrow> (\<forall>x\<in>set s. P x)"
  by (induction s) auto

lemma trim_empty_iff: "trim s = [] \<longleftrightarrow> blank s"
  by (simp add: trim_def blank_def dropWhile_eq_Nil_conv list_all_iff all_dropWhile)

subsection \<open>Through JSON and back\<close>

lemma roundtrip_value:
  "serialisable v \<Longrightarrow> map_option from_json (to_json v) = Some (strip_undefined v)"
proof (induction v)
  case (Num n)
  then show ?case by (cases n) auto
next
  case (Arr xs)
  have "map (from_json \<circ> (\<lambda>x. case to_json x of None \<Rightarrow> JNull | Some j \<Rightarrow> j)) xs
        = map strip_undefined xs"
  proof (rule map_cong [OF refl])
    fix x assume x: "x \<in> set xs"
    then have "serialisable x" using Arr.prems by (simp add: list_all_iff)
    with Arr.IH [OF x] show "(from_json \<circ> (\<lambda>x. case to_json x of None \<Rightarrow> JNull | Some j \<Rightarrow> j)) x
        = strip_undefined x"
      by (auto split: option.splits)
  qed
  then show ?case by simp
next
  case (Obj kvs)
  have entry: "map (\<lambda>(k, j). (k, from_json j)) (case to_json v of None \<Rightarrow> [] | Some j \<Rightarrow> [(k, j)])
        = (if v = Undefined then [] else [(k, strip_undefined v)])"
    if "(k, v) \<in> set kvs" for k v
  proof (cases "v = Undefined")
    case True
    then show ?thesis by simp
  next
    case False
    have "serialisable v"
      using Obj.prems that False by (auto simp: list_all_iff)
    moreover have "v \<in> Basic_BNFs.snds (k, v)" by simp
    ultimately have "map_option from_json (to_json v) = Some (strip_undefined v)"
      using Obj.IH that by blast
    with False show ?thesis by auto
  qed
  have "map (\<lambda>(k, j). (k, from_json j))
          (concat (map (\<lambda>(k, v). case to_json v of None \<Rightarrow> [] | Some j \<Rightarrow> [(k, j)]) kvs))
        = concat (map (\<lambda>kv. map (\<lambda>(k, j). (k, from_json j))
            (case kv of (k, v) \<Rightarrow> case to_json v of None \<Rightarrow> [] | Some j \<Rightarrow> [(k, j)])) kvs)"
    by (simp add: map_concat comp_def)
  also have "\<dots> = concat (map (\<lambda>(k, v). if v = Undefined then [] else [(k, strip_undefined v)]) kvs)"
    by (rule arg_cong [where f = concat], rule map_cong [OF refl]) (auto simp: entry)
  finally show ?case by simp
qed simp_all

lemma roundtrip_list:
  "list_all serialisable xs \<Longrightarrow>
   map (from_json \<circ> (\<lambda>x. case to_json x of None \<Rightarrow> JNull | Some j \<Rightarrow> j)) xs
     = map strip_undefined xs"
  using roundtrip_value [of "Arr xs"] by simp

lemma concat_map_concat_map:
  "concat (map g (concat (map f xs))) = concat (map (\<lambda>x. concat (map g (f x))) xs)"
  by (induction xs) auto

lemma strip_keeps_defined: "strip_undefined v = Undefined \<longleftrightarrow> v = Undefined"
  by (cases v) auto

lemma strip_idem: "strip_undefined (strip_undefined v) = strip_undefined v"
proof (induction v)
  case (Obj kvs)
  have entry: "concat (map (\<lambda>(k, v). if v = Undefined then [] else [(k, strip_undefined v)])
            (if v = Undefined then [] else [(k, strip_undefined v)]))
        = (if v = Undefined then [] else [(k, strip_undefined v)])"
    if "(k, v) \<in> set kvs" for k v
  proof -
    have "v \<in> Basic_BNFs.snds (k, v)" by simp
    then have "strip_undefined (strip_undefined v) = strip_undefined v"
      using Obj.IH that by blast
    then show ?thesis by (simp add: strip_keeps_defined)
  qed
  have "concat (map (\<lambda>(k, v). if v = Undefined then [] else [(k, strip_undefined v)])
          (concat (map (\<lambda>(k, v). if v = Undefined then [] else [(k, strip_undefined v)]) kvs)))
        = concat (map (\<lambda>kv. concat (map (\<lambda>(k, v). if v = Undefined then [] else [(k, strip_undefined v)])
            (case kv of (k, v) \<Rightarrow> if v = Undefined then [] else [(k, strip_undefined v)]))) kvs)"
    by (simp add: concat_map_concat_map)
  also have "\<dots> = concat (map (\<lambda>(k, v). if v = Undefined then [] else [(k, strip_undefined v)]) kvs)"
    by (rule arg_cong [where f = concat], rule map_cong [OF refl]) (auto simp: entry)
  finally show ?case by simp
qed simp_all

text \<open>
  A number that is not finite can enter the list through an import, and an export
  writes it as \<^verbatim>\<open>null\<close>.
\<close>

lemma huge_literal_imported:
  "locations (onUploadFile (Some (Json (JArr [JObj [(''lat'', JHuge False)]]))) w)
     = [Obj [(''lat'', Num PosInf)]] \<and>
   to_json (Obj [(''lat'', Num PosInf)]) = Some (JObj [(''lat'', JNull)])"
  by (simp add: onUploadFile_def)

section \<open>Properties of the specification\<close>

subsection \<open>C1: ids stay unique\<close>

text \<open>
  C1. Start from the empty list and run any sequence of add, update (\<^verbatim>\<open>saveEdit\<close>)
  and remove (\<^verbatim>\<open>deleteLocation\<close>) operations in which every add gets an id that
  no place has at that moment. Then the list that results never holds two places with
  the same id. The sequence does result in a list whenever the forms that are added have
  a title and notes that are strings or absent: no operation throws then.
\<close>

theorem ids_stay_distinct:
  assumes "fresh_ids net xs (initial sto)"
  shows "(\<forall>w. run net xs (initial sto) = Inr w \<longrightarrow> distinct (ids w)) \<and>
    (list_all typed_form xs \<longrightarrow> (\<exists>w. run net xs (initial sto) = Inr w))"
proof -
  have "distinct (ids (initial sto))" by (simp add: ids_def initial_def)
  moreover have "list_all defined (locations (initial sto))" by (simp add: initial_def)
  ultimately show ?thesis using assms run_distinct run_total by blast
qed

text \<open>Two adds, an edit of the first place and the removal of the second.\<close>

theorem ids_stay_distinct_witness:
  "fresh_ids demo_net demo_ops (initial Map.empty) \<and> list_all typed_form demo_ops \<and>
   (\<exists>w. run demo_net demo_ops (initial Map.empty) = Inr w \<and> distinct (ids w))"
proof -
  have f: "fresh_ids demo_net demo_ops (initial Map.empty)"
    by code_simp
  have t: "list_all typed_form demo_ops"
    by simp
  from ids_stay_distinct [OF f] t f show ?thesis by blast
qed

subsection \<open>C2: export, then import\<close>

text \<open>
  C2 as stated, for every list, fails: a number that is not finite is written
  \<^verbatim>\<open>null\<close>, so a place whose latitude is \<^verbatim>\<open>Infinity\<close> comes back with
  the latitude \<^verbatim>\<open>null\<close>. (The type \<^verbatim>\<open>Location\<close> only asks for a number,
  and an import brings such a place in: \<^verbatim>\<open>JSON.parse\<close> reads
  \<^verbatim>\<open>1e999\<close> as \<^verbatim>\<open>Infinity\<close>.)
\<close>

theorem export_import_counterexample:
  "\<not> list_all2 equivalent
       (locations (onUploadFile (Some (exported (demo_world [demo_place ''a'' PosInf (Obj [])])))
                     (demo_world [demo_place ''a'' PosInf (Obj [])])))
       (locations (demo_world [demo_place ''a'' PosInf (Obj [])]))"
  by (simp add: exported_def downloadJSON_def JSON_stringify_def onUploadFile_def initial_def
      equivalent_def)

text \<open>
  C2, amended. For every list whose entries JSON can hold (every number finite, no
  array element \<^verbatim>\<open>undefined\<close>), importing the exported file gives the list
  back with the properties whose value is \<^verbatim>\<open>undefined\<close> left out, which is a list
  equivalent to the original.
\<close>

theorem export_import_roundtrip:
  assumes "list_all serialisable (locations w)"
  shows "locations (onUploadFile (Some (exported w)) w') = map strip_undefined (locations w) \<and>
     list_all2 equivalent (locations (onUploadFile (Some (exported w)) w')) (locations w)"
proof -
  have "exported w =
      Json (JArr (map (\<lambda>x. case to_json x of None \<Rightarrow> JNull | Some j \<Rightarrow> j) (locations w)))"
    by (simp add: exported_def downloadJSON_def JSON_stringify_def)
  then have l: "locations (onUploadFile (Some (exported w)) w') = map strip_undefined (locations w)"
    using roundtrip_list [OF assms] by (simp add: onUploadFile_def)
  have "list_all2 equivalent (map strip_undefined (locations w)) (locations w)"
    by (simp add: list_all2_map1 equivalent_def strip_idem list_all2_same)
  with l show ?thesis by simp
qed

text \<open>A place whose lookup gave no display name: the property is left out.\<close>

theorem export_import_roundtrip_witness:
  "list_all serialisable
     (locations (demo_world [demo_place ''a'' (Finite 40)
        (Obj [(''displayName'', Undefined), (''city'', Str ''Jersey City'')])])) \<and>
   locations (onUploadFile
       (Some (exported (demo_world [demo_place ''a'' (Finite 40)
          (Obj [(''displayName'', Undefined), (''city'', Str ''Jersey City'')])])))
       (initial Map.empty))
     = [demo_place ''a'' (Finite 40) (Obj [(''city'', Str ''Jersey City'')])]"
proof -
  have s: "list_all serialisable
     (locations (demo_world [demo_place ''a'' (Finite 40)
        (Obj [(''displayName'', Undefined), (''city'', Str ''Jersey City'')])]))"
    by (simp add: initial_def)
  from export_import_roundtrip [OF s, of "initial Map.empty"] s show ?thesis
    by (simp add: initial_def)
qed

subsection \<open>C3: what an import does\<close>

text \<open>
  C3. When the imported text parses as JSON and its value is not an array, the import
  shows an alert and leaves \<^verbatim>\<open>locations\<close>, \<^verbatim>\<open>isCollecting\<close> and
  \<^verbatim>\<open>showList\<close> as they were. When the value is an array, it becomes
  \<^verbatim>\<open>locations\<close> as it is, and \<^verbatim>\<open>isCollecting\<close> and \<^verbatim>\<open>showList\<close>
  become false.
\<close>

theorem import_replaces_or_alerts:
  "(JSON_parse t = Inr parsed \<and> (\<forall>ls. parsed \<noteq> Arr ls) \<longrightarrow>
      alerts (onUploadFile (Some t) w) = alerts w @ [''Invalid file format.''] \<and>
      locations (onUploadFile (Some t) w) = locations w \<and>
      isCollecting (onUploadFile (Some t) w) = isCollecting w \<and>
      showList (onUploadFile (Some t) w) = showList w) \<and>
   (JSON_parse t = Inr (Arr ls) \<longrightarrow>
      locations (onUploadFile (Some t) w) = ls \<and>
      isCollecting (onUploadFile (Some t) w) = Bool False \<and>
      showList (onUploadFile (Some t) w) = Bool False \<and>
      alerts (onUploadFile (Some t) w) = alerts w)"
  by (cases parsed) (auto simp: onUploadFile_def)

text \<open>An object that wraps the list is refused; a list is taken.\<close>

theorem import_replaces_or_alerts_witness:
  "alerts (onUploadFile (Some (Json (JObj [(''locations'', JArr [])]))) (initial Map.empty))
     = [''Invalid file format.''] \<and>
   locations (onUploadFile (Some (Json (JObj [(''locations'', JArr [])]))) (initial Map.empty)) = [] \<and>
   isCollecting (onUploadFile (Some (Json (JObj [(''locations'', JArr [])]))) (initial Map.empty))
     = Bool True \<and>
   locations (onUploadFile (Some (Json (JArr [JStr ''x'']))) (initial Map.empty)) = [Str ''x''] \<and>
   isCollecting (onUploadFile (Some (Json (JArr [JStr ''x'']))) (initial Map.empty)) = Bool False \<and>
   showList (onUploadFile (Some (Json (JArr [JStr ''x'']))) (initial Map.empty)) = Bool False"
  using import_replaces_or_alerts [of "Json (JObj [(''locations'', JArr [])])"
          "Obj [(''locations'', Arr [])]" "initial Map.empty" "[]"]
        import_replaces_or_alerts [of "Json (JArr [JStr ''x''])" "Arr [Str ''x'']"
          "initial Map.empty" "[Str ''x'']"]
  by (simp add: initial_def)

subsection \<open>C4: the title of a new place\<close>

text \<open>
  C4. When a form is added whose title is blank (empty, or white space only), the new
  place gets the city of the lookup as its title if the lookup gave a non-empty one, and
  \<^verbatim>\<open>"Untitled place"\<close> if it gave none; when the title is not blank, the new place
  keeps it, trimmed. The new place is put in front of the list.
\<close>

theorem add_title_default:
  assumes "draft w = Some d" and "title d = Str s" and "trimmable (notes' d)"
  shows "\<exists>w' p meta. addDraftToLocations net uuid now w = Inr w' \<and>
      locations w' = p # locations w \<and>
      fst (enrichWithReverseGeocode net (lat d) (lng d) w) = Inr meta \<and>
      opt_dot p ''meta'' = meta \<and>
      (\<not> blank s \<longrightarrow> opt_dot p ''title'' = Str (trim s)) \<and>
      (blank s \<and> truthy (opt_dot meta ''city'') \<longrightarrow> opt_dot p ''title'' = opt_dot meta ''city'') \<and>
      (blank s \<and> \<not> truthy (opt_dot meta ''city'') \<longrightarrow> opt_dot p ''title'' = Str ''Untitled place'')"
proof -
  obtain r w1 where e: "enrichWithReverseGeocode net (lat d) (lng d) w = (r, w1)"
    by (cases "enrichWithReverseGeocode net (lat d) (lng d) w")
  obtain meta where r: "r = Inr meta"
    using enrich_resolves [of net "lat d" "lng d" w] e by auto
  obtain kvs where m: "meta = Obj kvs"
    using enrich_object [of net "lat d" "lng d" w meta] e r by auto
  obtain n where n: "new_notes (notes' d) = Inr n"
    using new_notes_total [OF assms(3)] by blast
  have l: "locations w1 = locations w"
    using enrich_locations [of net "lat d" "lng d" w] e by simp
  show ?thesis
    using assms(1,2) e r m l n
    by (auto simp: addDraftToLocations_def new_title_def or_js_def own_prop_def
        trim_empty_iff [symmetric])
qed

text \<open>
  The example of the specification, then the same click when the lookup fails, then a
  title typed with spaces around it.
\<close>

theorem add_title_default_witness:
  "draft (MapClickCatcher (Finite 40) (Finite (- 74)) (initial Map.empty)) = Some demo_form \<and>
   (\<exists>w' p. addDraftToLocations demo_net ''a'' 1
              (MapClickCatcher (Finite 40) (Finite (- 74)) (initial Map.empty)) = Inr w' \<and>
      locations w' = [p] \<and> opt_dot p ''title'' = Str ''Jersey City'' \<and>
      opt_dot (opt_dot p ''meta'') ''country'' = Str ''USA'') \<and>
   (\<exists>w' p. addDraftToLocations (\<lambda>la lo. Rejected) ''a'' 1
              (MapClickCatcher (Finite 40) (Finite (- 74)) (initial Map.empty)) = Inr w' \<and>
      locations w' = [p] \<and> opt_dot p ''title'' = Str ''Untitled place'') \<and>
   (\<exists>w' p. addDraftToLocations demo_net ''a'' 1
              ((initial Map.empty)\<lparr>draft := Some (demo_form\<lparr>title := Str '' Home ''\<rparr>)\<rparr>) = Inr w' \<and>
      locations w' = [p] \<and> opt_dot p ''title'' = Str ''Home'')"
proof -
  have d: "draft (MapClickCatcher (Finite 40) (Finite (- 74)) (initial Map.empty)) = Some demo_form"
    by (simp add: MapClickCatcher_def initial_def)
  have b: "blank []" "\<not> blank '' Home ''" "trim '' Home '' = ''Home''"
    by (simp_all add: blank_def trim_def is_space_def)
  have m1: "fst (enrichWithReverseGeocode demo_net (Num (Finite 40)) (Num (Finite (- 74))) w)
      = Inr (Obj [(''displayName'', Str ''Jersey City, USA''), (''city'', Str ''Jersey City''),
                  (''country'', Str ''USA'')])" for w
    by (simp add: enrichWithReverseGeocode_def geocode_try_def resolve_city_def or_js_def
        own_prop_def)
  have m2: "fst (enrichWithReverseGeocode (\<lambda>la lo. Rejected) (Num (Finite 40))
      (Num (Finite (- 74))) w) = Inr (Obj [])" for w
    by (simp add: enrichWithReverseGeocode_def geocode_try_def)
  have l: "locations (MapClickCatcher (Finite 40) (Finite (- 74)) (initial Map.empty)) = []"
    "locations ((initial Map.empty)\<lparr>draft := Some (demo_form\<lparr>title := Str '' Home ''\<rparr>)\<rparr>) = []"
    by (simp_all add: MapClickCatcher_def initial_def)
  from add_title_default [OF d, of "[]" demo_net "''a''" 1]
  have 1: "\<exists>w' p. addDraftToLocations demo_net ''a'' 1
              (MapClickCatcher (Finite 40) (Finite (- 74)) (initial Map.empty)) = Inr w' \<and>
      locations w' = [p] \<and> opt_dot p ''title'' = Str ''Jersey City'' \<and>
      opt_dot (opt_dot p ''meta'') ''country'' = Str ''USA''"
    using b m1 l by (auto simp: own_prop_def)
  from add_title_default [OF d, of "[]" "\<lambda>la lo. Rejected" "''a''" 1]
  have 2: "\<exists>w' p. addDraftToLocations (\<lambda>la lo. Rejected) ''a'' 1
              (MapClickCatcher (Finite 40) (Finite (- 74)) (initial Map.empty)) = Inr w' \<and>
      locations w' = [p] \<and> opt_dot p ''title'' = Str ''Untitled place''"
    using b m2 l by (auto simp: own_prop_def)
  from add_title_default [of "(initial Map.empty)\<lparr>draft := Some (demo_form\<lparr>title := Str '' Home ''\<rparr>)\<rparr>"
      "demo_form\<lparr>title := Str '' Home ''\<rparr>" "'' Home ''" demo_net "''a''" 1]
  have 3: "\<exists>w' p. addDraftToLocations demo_net ''a'' 1
              ((initial Map.empty)\<lparr>draft := Some (demo_form\<lparr>title := Str '' Home ''\<rparr>)\<rparr>) = Inr w' \<and>
      locations w' = [p] \<and> opt_dot p ''title'' = Str ''Home''"
    using b l by auto
  from d 1 2 3 show ?thesis by blast
qed

subsection \<open>C5: reset\<close>

text \<open>
  Two parts of C5 hold. Without the user's confirmation a reset changes nothing; with
  it, the list becomes empty, both flags become true, and the handler itself removes the
  stored document.
\<close>

lemma reset_needs_confirmation: "reset_event False w = w"
  by (simp add: reset_event_def handleReset_def)

lemma reset_clears_memory:
  "locations (reset_event True w) = [] \<and> isCollecting (reset_event True w) = Bool True \<and>
   showList (reset_event True w) = Bool True \<and> draft (reset_event True w) = None"
  by (simp add: reset_event_def persist_def handleReset_def)

text \<open>
  C5, the part that fails: after a confirmed reset has completed, no stored document
  should remain. The handler removes the item, and the persisting effect that its own
  state change sets off then writes the document of the cleared state back under the
  key. In any world \<open>w\<close>, this is the storage when the handler returns and when the
  reset has completed.
\<close>

theorem reset_document_written_back:
  "localStorage (handleReset True w) STORAGE_KEY = None \<and>
   localStorage (reset_event True w) STORAGE_KEY =
     Some (Json (JObj [(''locations'', JArr []), (''isCollecting'', JBool True),
                       (''showList'', JBool True)]))"
  by (simp add: reset_event_def persist_def handleReset_def JSON_stringify_def)

subsection \<open>C6: starting without a usable document\<close>

text \<open>
  C6. When nothing is stored under the key, or what is stored does not parse as JSON,
  the state after the loading effect is the default one (no places,
  \<^verbatim>\<open>isCollecting\<close> and \<^verbatim>\<open>showList\<close> true), and nothing is shown or logged:
  the effect leaves the first render's state as it is.
\<close>

theorem startup_defaults:
  assumes "sto STORAGE_KEY = None \<or>
     (\<exists>raw e. sto STORAGE_KEY = Some raw \<and> JSON_parse raw = Inl e)"
  shows "load (initial sto) = initial sto \<and>
    locations (load (initial sto)) = [] \<and>
    isCollecting (load (initial sto)) = Bool True \<and>
    showList (load (initial sto)) = Bool True \<and>
    alerts (load (initial sto)) = [] \<and> warnings (load (initial sto)) = []"
proof -
  have "load (initial sto) = initial sto"
    using assms by (auto simp: load_def load_try_def initial_def)
  then show ?thesis by (simp add: initial_def)
qed

text \<open>An empty storage, and a stored text that is not JSON.\<close>

theorem startup_defaults_witness:
  "locations (load (initial Map.empty)) = [] \<and>
   isCollecting (load (initial Map.empty)) = Bool True \<and>
   showList (load (initial Map.empty)) = Bool True \<and>
   JSON_parse Garbled = Inl SyntaxError \<and>
   locations (load (initial (Map.empty(STORAGE_KEY \<mapsto> Garbled)))) = [] \<and>
   isCollecting (load (initial (Map.empty(STORAGE_KEY \<mapsto> Garbled)))) = Bool True \<and>
   showList (load (initial (Map.empty(STORAGE_KEY \<mapsto> Garbled)))) = Bool True \<and>
   alerts (load (initial (Map.empty(STORAGE_KEY \<mapsto> Garbled)))) = []"
  using startup_defaults [of Map.empty] startup_defaults [of "Map.empty(STORAGE_KEY \<mapsto> Garbled)"]
  by (simp add: initial_def)

subsection \<open>C7: the lookup never rejects\<close>

text \<open>
  C7. For every latitude and longitude and whatever the network does, the promise of
  \<^verbatim>\<open>enrichWithReverseGeocode\<close> resolves. When the request fails or the body is
  not JSON it resolves to the empty object. No alert is shown in any case.
\<close>

theorem geocode_always_resolves:
  "(\<exists>m. fst (enrichWithReverseGeocode net la lo w) = Inr m) \<and>
   (net la lo = Rejected \<or> net la lo = BadBody \<longrightarrow>
      fst (enrichWithReverseGeocode net la lo w) = Inr (Obj [])) \<and>
   alerts (snd (enrichWithReverseGeocode net la lo w)) = alerts w"
  by (auto simp: enrichWithReverseGeocode_def geocode_try_def Let_def
      split: sum.splits response.splits)

theorem geocode_always_resolves_witness:
  "fst (enrichWithReverseGeocode (\<lambda>a b. Rejected) (Num (Finite 40)) (Num (Finite (- 74)))
          (initial Map.empty)) = Inr (Obj []) \<and>
   fst (enrichWithReverseGeocode (\<lambda>a b. BadBody) (Num (Finite 40)) (Num (Finite (- 74)))
          (initial Map.empty)) = Inr (Obj []) \<and>
   alerts (snd (enrichWithReverseGeocode (\<lambda>a b. Rejected) (Num (Finite 40)) (Num (Finite (- 74)))
          (initial Map.empty))) = []"
  using geocode_always_resolves [of "\<lambda>a b. Rejected" "Num (Finite 40)" "Num (Finite (- 74))"
          "initial Map.empty"]
        geocode_always_resolves [of "\<lambda>a b. BadBody" "Num (Finite 40)" "Num (Finite (- 74))"
          "initial Map.empty"]
  by (simp add: initial_def)

text \<open>
  A body that parses but has neither an address nor a display name (the service's
  error answer, for one) gives an object whose three properties are all
  \<^verbatim>\<open>undefined\<close>, which is equivalent to the empty object.
\<close>

lemma geocode_shapeless:
  assumes "net la lo = Body j" and "opt_dot (from_json j) ''address'' = Undefined"
    and "opt_dot (from_json j) ''display_name'' = Undefined"
  shows "\<exists>m. fst (enrichWithReverseGeocode net la lo w) = Inr m \<and> equivalent m (Obj [])"
  using assms
  by (simp add: enrichWithReverseGeocode_def geocode_try_def resolve_city_def or_js_def
      equivalent_def)

subsection \<open>C8: the city of an address\<close>




subsection \<open>C9: what an edit touches\<close>

text \<open>
  C9 as stated, for every list, fails: \<^verbatim>\<open>saveEdit\<close> finds the place by its id,
  so on a list in which two places have the same id it rewrites both, and a place other
  than the one being edited changes. Such a list comes in through an import. Here the
  file \<open>demo_twins\<close> is imported, \<^emph>\<open>Edit\<close> is pressed on the first place and then
  \<^emph>\<open>Save\<close>: the second place, titled Two, now has the title and the coordinates of the
  first.
\<close>

theorem saveEdit_twins_counterexample:
  "\<exists>w1 w2. startEdit ''a'' (onUploadFile (Some (Json demo_twins)) (initial Map.empty)) = Inr w1 \<and>
      saveEdit (\<lambda>la lo. Rejected) w1 = Inr w2 \<and>
      opt_dot (locations w1 ! 0) ''title'' = Str ''One'' \<and>
      opt_dot (locations w1 ! 1) ''title'' = Str ''Two'' \<and>
      opt_dot (locations w1 ! 1) ''lat'' = Num (Finite 3) \<and>
      opt_dot (locations w2 ! 1) ''title'' = Str ''One'' \<and>
      opt_dot (locations w2 ! 1) ''lat'' = Num (Finite 1) \<and>
      locations w2 ! 1 \<noteq> locations w1 ! 1"
  by (simp add: onUploadFile_def initial_def startEdit_def id_is_def own_prop_def saveEdit_def
      enrichWithReverseGeocode_def geocode_try_def)

text \<open>
  C9, amended. Let the form carry an id, a string. When the id is empty,
  \<^verbatim>\<open>saveEdit\<close> does nothing. When it is not empty: whenever \<^verbatim>\<open>saveEdit\<close>
  returns, the list has the same length; every place with another id is the same as
  before, at the same position; every place with the form's id (one place, when the ids
  are unique) has the form's \<^verbatim>\<open>lat\<close>, \<^verbatim>\<open>lng\<close>, \<^verbatim>\<open>title\<close> and
  \<^verbatim>\<open>notes\<close> and the lookup's \<^verbatim>\<open>meta\<close>, and every other property of it
  (\<^verbatim>\<open>id\<close> and \<^verbatim>\<open>createdAt\<close> among them) reads as before. And
  \<^verbatim>\<open>saveEdit\<close> does return when no entry of the list is \<^verbatim>\<open>null\<close> or
  \<^verbatim>\<open>undefined\<close>.
\<close>

theorem saveEdit_frame:
  assumes "draft w = Some d" and "id' d = Some i"
  shows "(i = [] \<longrightarrow> saveEdit net w = Inr w) \<and>
    (i \<noteq> [] \<longrightarrow>
      (list_all defined (locations w) \<longrightarrow> (\<exists>w'. saveEdit net w = Inr w')) \<and>
      (\<forall>w'. saveEdit net w = Inr w' \<longrightarrow>
        (\<exists>meta. fst (enrichWithReverseGeocode net (lat d) (lng d) w) = Inr meta \<and>
          length (locations w') = length (locations w) \<and>
          (\<forall>n < length (locations w).
             (opt_dot (locations w ! n) ''id'' \<noteq> Str i \<longrightarrow> locations w' ! n = locations w ! n) \<and>
             (opt_dot (locations w ! n) ''id'' = Str i \<longrightarrow>
                opt_dot (locations w' ! n) ''lat'' = lat d \<and>
                opt_dot (locations w' ! n) ''lng'' = lng d \<and>
                opt_dot (locations w' ! n) ''title'' = title d \<and>
                opt_dot (locations w' ! n) ''notes'' = notes' d \<and>
                opt_dot (locations w' ! n) ''meta'' = meta \<and>
                (\<forall>k. k \<notin> {''lat'', ''lng'', ''title'', ''notes'', ''meta''} \<longrightarrow>
                   opt_dot (locations w' ! n) k = opt_dot (locations w ! n) k))))))"
proof (intro conjI allI impI)
  assume "i = []"
  then show "saveEdit net w = Inr w"
    using assms by (simp add: saveEdit_def)
next
  assume "i \<noteq> []" and "list_all defined (locations w)"
  then show "\<exists>w'. saveEdit net w = Inr w'" using saveEdit_total by blast
next
  fix w' assume i: "i \<noteq> []" and s: "saveEdit net w = Inr w'"
  obtain meta where m: "fst (enrichWithReverseGeocode net (lat d) (lng d) w) = Inr meta"
    and js: "map_js (edit_entry d meta i) (locations w) = Inr (locations w')"
    using saveEdit_Inr [OF s assms i] by blast
  have all2: "list_all2 (\<lambda>x y. edit_entry d meta i x = Inr y) (locations w) (locations w')"
    using map_js_Inr [OF js] .
  then have len: "length (locations w') = length (locations w)"
    by (simp add: list_all2_lengthD)
  have nth: "edit_entry d meta i (locations w ! n) = Inr (locations w' ! n)"
    if "n < length (locations w)" for n
    using all2 that by (simp add: list_all2_conv_all_nth)
  show "\<exists>meta. fst (enrichWithReverseGeocode net (lat d) (lng d) w) = Inr meta \<and>
        length (locations w') = length (locations w) \<and>
        (\<forall>n < length (locations w).
           (opt_dot (locations w ! n) ''id'' \<noteq> Str i \<longrightarrow> locations w' ! n = locations w ! n) \<and>
           (opt_dot (locations w ! n) ''id'' = Str i \<longrightarrow>
              opt_dot (locations w' ! n) ''lat'' = lat d \<and>
              opt_dot (locations w' ! n) ''lng'' = lng d \<and>
              opt_dot (locations w' ! n) ''title'' = title d \<and>
              opt_dot (locations w' ! n) ''notes'' = notes' d \<and>
              opt_dot (locations w' ! n) ''meta'' = meta \<and>
              (\<forall>k. k \<notin> {''lat'', ''lng'', ''title'', ''notes'', ''meta''} \<longrightarrow>
                 opt_dot (locations w' ! n) k = opt_dot (locations w ! n) k)))"
    using m len edit_entry_other [OF nth] edit_entry_same [OF nth] by blast
qed

text \<open>
  Two places, \<open>a\<close> in front of \<open>b\<close>; the form edits \<open>b\<close>: new coordinates and
  the title Home, while the lookup fails. And the same form with an empty id.
\<close>

theorem saveEdit_frame_witness:
  "draft ((demo_world [demo_place ''a'' (Finite 40) (Obj []), demo_place ''b'' (Finite 41) (Obj [])])
      \<lparr>draft := Some (demo_form\<lparr>title := Str ''Home'', id' := Some ''b''\<rparr>)\<rparr>)
     = Some (demo_form\<lparr>title := Str ''Home'', id' := Some ''b''\<rparr>) \<and>
   id' (demo_form\<lparr>title := Str ''Home'', id' := Some ''b''\<rparr>) = Some ''b'' \<and> ''b'' \<noteq> [] \<and>
   (\<exists>w'. saveEdit (\<lambda>la lo. Rejected)
            ((demo_world [demo_place ''a'' (Finite 40) (Obj []), demo_place ''b'' (Finite 41) (Obj [])])
              \<lparr>draft := Some (demo_form\<lparr>title := Str ''Home'', id' := Some ''b''\<rparr>)\<rparr>) = Inr w' \<and>
      length (locations w') = 2 \<and>
      locations w' ! 0 = demo_place ''a'' (Finite 40) (Obj []) \<and>
      opt_dot (locations w' ! 1) ''title'' = Str ''Home'' \<and>
      opt_dot (locations w' ! 1) ''lat'' = Num (Finite 40) \<and>
      opt_dot (locations w' ! 1) ''id'' = Str ''b'' \<and>
      opt_dot (locations w' ! 1) ''createdAt'' = Num (Finite 1)) \<and>
   saveEdit (\<lambda>la lo. Rejected)
       ((demo_world [demo_place ''a'' (Finite 40) (Obj [])])
          \<lparr>draft := Some (demo_form\<lparr>title := Str ''Home'', id' := Some []\<rparr>)\<rparr>)
     = Inr ((demo_world [demo_place ''a'' (Finite 40) (Obj [])])
          \<lparr>draft := Some (demo_form\<lparr>title := Str ''Home'', id' := Some []\<rparr>)\<rparr>)"
proof -
  define d where "d = demo_form\<lparr>title := Str ''Home'', id' := Some ''b''\<rparr>"
  define w where "w =
    (demo_world [demo_place ''a'' (Finite 40) (Obj []), demo_place ''b'' (Finite 41) (Obj [])])
      \<lparr>draft := Some d\<rparr>"
  have h: "draft w = Some d" "id' d = Some ''b''"
    by (simp_all add: w_def d_def)
  have ne: "''b'' \<noteq> []"
    by simp
  have l: "locations w =
      [demo_place ''a'' (Finite 40) (Obj []), demo_place ''b'' (Finite 41) (Obj [])]"
    by (simp add: w_def initial_def)
  have dd: "list_all defined (locations w)"
    by (simp add: l)
  note frame = saveEdit_frame [OF h, of "\<lambda>la lo. Rejected", THEN conjunct2, rule_format, OF ne]
  from frame dd obtain w' where s: "saveEdit (\<lambda>la lo. Rejected) w = Inr w'"
    by blast
  from frame s obtain meta where len: "length (locations w') = length (locations w)"
    and each: "\<forall>n < length (locations w).
           (opt_dot (locations w ! n) ''id'' \<noteq> Str ''b'' \<longrightarrow> locations w' ! n = locations w ! n) \<and>
           (opt_dot (locations w ! n) ''id'' = Str ''b'' \<longrightarrow>
              opt_dot (locations w' ! n) ''lat'' = lat d \<and>
              opt_dot (locations w' ! n) ''lng'' = lng d \<and>
              opt_dot (locations w' ! n) ''title'' = title d \<and>
              opt_dot (locations w' ! n) ''notes'' = notes' d \<and>
              opt_dot (locations w' ! n) ''meta'' = meta \<and>
              (\<forall>k. k \<notin> {''lat'', ''lng'', ''title'', ''notes'', ''meta''} \<longrightarrow>
                 opt_dot (locations w' ! n) k = opt_dot (locations w ! n) k))"
    by blast
  have len2: "length (locations w') = 2"
    using len by (simp add: l)
  have a: "opt_dot (locations w ! 0) ''id'' \<noteq> Str ''b''"
    by (simp add: l own_prop_def)
  have "0 < length (locations w)"
    by (simp add: l)
  with each a have "locations w' ! 0 = locations w ! 0"
    by blast
  then have first: "locations w' ! 0 = demo_place ''a'' (Finite 40) (Obj [])"
    by (simp add: l)
  have b: "opt_dot (locations w ! 1) ''id'' = Str ''b''"
    by (simp add: l own_prop_def)
  have "1 < length (locations w)"
    by (simp add: l)
  with each b have second: "opt_dot (locations w' ! 1) ''lat'' = lat d"
      "opt_dot (locations w' ! 1) ''title'' = title d"
      "\<forall>k. k \<notin> {''lat'', ''lng'', ''title'', ''notes'', ''meta''} \<longrightarrow>
         opt_dot (locations w' ! 1) k = opt_dot (locations w ! 1) k"
    by blast+
  have kept: "opt_dot (locations w' ! 1) ''id'' = opt_dot (locations w ! 1) ''id''"
      "opt_dot (locations w' ! 1) ''createdAt'' = opt_dot (locations w ! 1) ''createdAt''"
    using second(3) by simp_all
  have vals: "opt_dot (locations w' ! 1) ''title'' = Str ''Home''"
      "opt_dot (locations w' ! 1) ''lat'' = Num (Finite 40)"
      "opt_dot (locations w' ! 1) ''id'' = Str ''b''"
      "opt_dot (locations w' ! 1) ''createdAt'' = Num (Finite 1)"
    using second(1,2) kept by (simp_all add: l own_prop_def d_def)
  have edited: "\<exists>w'. saveEdit (\<lambda>la lo. Rejected) w = Inr w' \<and>
      length (locations w') = 2 \<and>
      locations w' ! 0 = demo_place ''a'' (Finite 40) (Obj []) \<and>
      opt_dot (locations w' ! 1) ''title'' = Str ''Home'' \<and>
      opt_dot (locations w' ! 1) ''lat'' = Num (Finite 40) \<and>
      opt_dot (locations w' ! 1) ''id'' = Str ''b'' \<and>
      opt_dot (locations w' ! 1) ''createdAt'' = Num (Finite 1)"
    using s len2 first vals by (intro exI [of _ w']) simp
  define e where "e = demo_form\<lparr>title := Str ''Home'', id' := Some []\<rparr>"
  define v where "v = (demo_world [demo_place ''a'' (Finite 40) (Obj [])])\<lparr>draft := Some e\<rparr>"
  have g: "draft v = Some e" "id' e = Some []"
    by (simp_all add: v_def e_def)
  have idle: "saveEdit (\<lambda>la lo. Rejected) v = Inr v"
    using saveEdit_frame [OF g, of "\<lambda>la lo. Rejected"] by blast
  from h ne edited idle show ?thesis
    unfolding w_def d_def v_def e_def by simp
qed

subsection \<open>C10: a stored document without the flags\<close>

text \<open>
  C10. When the stored document parses and its \<^verbatim>\<open>locations\<close> is an array, the
  loading effect takes the array, and a flag that the document does not have becomes
  false (not true, the value it has when there is no usable document at all).
\<close>

theorem load_missing_flags:
  assumes "sto STORAGE_KEY = Some raw" and "JSON_parse raw = Inr parsed"
    and "opt_dot parsed ''locations'' = Arr ls"
  shows "locations (load (initial sto)) = ls \<and>
    (opt_dot parsed ''isCollecting'' = Undefined \<longrightarrow> isCollecting (load (initial sto)) = Bool False) \<and>
    (opt_dot parsed ''showList'' = Undefined \<longrightarrow> showList (load (initial sto)) = Bool False)"
proof -
  obtain kvs where p: "parsed = Obj kvs"
    using assms(3) by (cases parsed) auto
  have ne: "raw \<noteq> Empty" using assms(2) by auto
  show ?thesis
    using assms ne p
    by (simp add: load_def load_try_def initial_def nullish_js_def)
qed

text \<open>A document that holds one place and nothing else.\<close>

theorem load_missing_flags_witness:
  "JSON_parse (Json (JObj [(''locations'', JArr [JObj [(''id'', JStr ''a'')]])]))
     = Inr (Obj [(''locations'', Arr [Obj [(''id'', Str ''a'')]])]) \<and>
   locations (load (initial (Map.empty(STORAGE_KEY \<mapsto>
      Json (JObj [(''locations'', JArr [JObj [(''id'', JStr ''a'')]])])))))
     = [Obj [(''id'', Str ''a'')]] \<and>
   isCollecting (load (initial (Map.empty(STORAGE_KEY \<mapsto>
      Json (JObj [(''locations'', JArr [JObj [(''id'', JStr ''a'')]])]))))) = Bool False \<and>
   showList (load (initial (Map.empty(STORAGE_KEY \<mapsto>
      Json (JObj [(''locations'', JArr [JObj [(''id'', JStr ''a'')]])]))))) = Bool False"
  using load_missing_flags [of "Map.empty(STORAGE_KEY \<mapsto>
      Json (JObj [(''locations'', JArr [JObj [(''id'', JStr ''a'')]])]))"
      "Json (JObj [(''locations'', JArr [JObj [(''id'', JStr ''a'')]])])"
      "Obj [(''locations'', Arr [Obj [(''id'', Str ''a'')]])]" "[Obj [(''id'', Str ''a'')]]"]
  by (simp add: own_prop_def)

end
